theory Spec2Isabelle
  imports Main "HOL-Library.Word" "HOL-Library.Sublist" "HOL-Library.AList"
begin

unbundle bit_operations_syntax

section \<open>Shared vocabulary: errors, Go helper functions\<close>

text \<open>
  Go's \<open>error\<close> values that the two source files build or pass on.
  \<^item> \<open>errors_New msg\<close>: \<open>errors.New(msg)\<close> and \<open>errors.Errorf(format, ...)\<close> of
    github.com/pkg/errors, with the formatted message.
  \<^item> \<open>errors_Wrap err msg\<close>: \<open>errors.Wrap(err, msg)\<close> and \<open>errors.Wrapf(err, format, ...)\<close>.
  \<^item> \<open>WithTransientError err d\<close>: \<open>azure.WithTransientError(err, d)\<close>, the reconcile error
    of transient type with requeue delay \<open>d\<close> (a \<open>time.Duration\<close>, in nanoseconds).
    The helper's file is not among the sources; it is kept as a constructor, so that the
    wrapped error and the delay can be read back.
  \<^item> \<open>autorest_DetailedError code msg\<close>: an error answered by the remote API with an
    HTTP status code.
  \<^item> \<open>rand_error msg\<close>: a failure of the system's random source or of key generation.
\<close>

datatype error =
    errors_New string
  | errors_Wrap error string
  | WithTransientError error int
  | autorest_DetailedError nat string
  | rand_error string

text \<open>\<open>time.Second\<close> as a \<open>time.Duration\<close>: nanoseconds.\<close>

definition time_Second :: int where
  "time_Second = 1000000000"

text \<open>\<open>to.Bool\<close> and \<open>to.String\<close> of go-autorest: the pointee, or the zero value for nil.\<close>

definition to_Bool :: "bool option \<Rightarrow> bool" where
  "to_Bool p = (case p of None \<Rightarrow> False | Some b \<Rightarrow> b)"

definition to_String :: "string option \<Rightarrow> string" where
  "to_String p = (case p of None \<Rightarrow> [] | Some s \<Rightarrow> s)"

type_synonym int32 = "32 word"

section \<open>Agent pools: \<open>azure/services/agentpools/spec.go\<close>\<close>

subsection \<open>Label maps and the store\<close>

text \<open>
  \<open>map[string]*string\<close> is a reference type in Go: \<open>ret := capz\<close> copies the reference,
  and \<open>ret[k] = v\<close> writes into the one map both names denote. The maps therefore live
  in a store, and a value of map type is \<open>None\<close> (the nil map) or \<open>Some a\<close>, the address
  of a map. The contents of a map are an association list read through \<open>map_of\<close>;
  a value is a \<open>*string\<close>, \<open>None\<close> for a nil pointer. The pointees of \<open>*string\<close>,
  \<open>*int32\<close> and \<open>*bool\<close> are never written by the code, so these pointers are
  options of their values.
\<close>

type_synonym addr = nat
type_synonym labels = "(string \<times> string option) list"
type_synonym heap = "addr \<Rightarrow> labels"

text \<open>\<open>m[k]\<close> read from a map: the zero value (nil pointer) for a missing key.\<close>

definition map_index :: "labels \<Rightarrow> string \<Rightarrow> string option" where
  "map_index m k = (case map_of m k of None \<Rightarrow> None | Some v \<Rightarrow> v)"

text \<open>The keys a \<open>for k := range m\<close> loop visits: every key once.\<close>

definition range_keys :: "labels \<Rightarrow> string list" where
  "range_keys m = remdups (map fst m)"

subsection \<open>Data model\<close>

record AgentPoolSpec =
  Name :: string
  ResourceGroup :: string
  Cluster :: string
  Version :: "string option"
  SKU :: string
  Replicas :: int32
  OSDiskSizeGB :: int32
  VnetSubnetID :: string
  Mode :: string
  MaxCount :: "int32 option"
  MinCount :: "int32 option"
  NodeLabels :: "addr option"
  NodeTaints :: "string list"
  EnableAutoScaling :: "bool option"
  AvailabilityZones :: "string list"
  MaxPods :: "int32 option"
  OsDiskType :: "string option"
  EnableUltraSSD :: "bool option"
  OSType :: "string option"
  Headers :: "(string \<times> string) list"
  EnableNodePublicIP :: "bool option"
  NodePublicIPPrefixID :: "string option"
  ScaleSetPriority :: "string option"

text \<open>
  \<open>containerservice.ManagedClusterAgentPoolProfileProperties\<close> and
  \<open>containerservice.AgentPool\<close> of the Azure SDK, with the fields the source reads or
  writes (prefix \<open>ap_\<close>, since the spec has fields of the same names). Every other field
  of the SDK structs is left at its zero value by the source, on both sides of the
  comparison and in the payload.
\<close>

record ManagedClusterAgentPoolProfileProperties =
  ap_AvailabilityZones :: "string list option"
  ap_Count :: "int32 option"
  ap_EnableAutoScaling :: "bool option"
  ap_EnableUltraSSD :: "bool option"
  ap_MaxCount :: "int32 option"
  ap_MaxPods :: "int32 option"
  ap_MinCount :: "int32 option"
  ap_Mode :: string
  ap_NodeLabels :: "addr option"
  ap_NodeTaints :: "string list option"
  ap_OrchestratorVersion :: "string option"
  ap_OsDiskSizeGB :: "int32 option"
  ap_OsDiskType :: string
  ap_OsType :: string
  ap_ScaleSetPriority :: string
  ap_Type :: string
  ap_VMSize :: "string option"
  ap_VnetSubnetID :: "string option"
  ap_EnableNodePublicIP :: "bool option"
  ap_NodePublicIPPrefixID :: "string option"
  ap_ProvisioningState :: "string option"

record AgentPool =
  ap_Properties :: "ManagedClusterAgentPoolProfileProperties option"
  ap_ID :: "string option"
  ap_Name :: "string option"
  ap_PoolType :: "string option"

text \<open>The zero value of the properties struct, and a struct literal naming only the properties.\<close>

definition zero_Properties :: ManagedClusterAgentPoolProfileProperties where
  "zero_Properties = \<lparr>
     ap_AvailabilityZones = None, ap_Count = None, ap_EnableAutoScaling = None,
     ap_EnableUltraSSD = None, ap_MaxCount = None, ap_MaxPods = None, ap_MinCount = None,
     ap_Mode = [], ap_NodeLabels = None, ap_NodeTaints = None,
     ap_OrchestratorVersion = None, ap_OsDiskSizeGB = None, ap_OsDiskType = [],
     ap_OsType = [], ap_ScaleSetPriority = [], ap_Type = [], ap_VMSize = None,
     ap_VnetSubnetID = None, ap_EnableNodePublicIP = None,
     ap_NodePublicIPPrefixID = None, ap_ProvisioningState = None \<rparr>"

definition AgentPool_of :: "ManagedClusterAgentPoolProfileProperties \<Rightarrow> AgentPool" where
  "AgentPool_of p = \<lparr> ap_Properties = Some p, ap_ID = None, ap_Name = None, ap_PoolType = None \<rparr>"

text \<open>
  The argument \<open>existing interface{}\<close>: nil, an agent pool, or a value of another type
  (with the name \<open>%T\<close> prints).
\<close>

datatype existing = ENil | EAgentPool AgentPool | EOther string

text \<open>
  What a call of \<open>Parameters\<close> does: it returns \<open>(params, err)\<close>, or it panics (a nil
  pointer is dereferenced). \<open>params\<close> is \<open>None\<close> for the nil interface.
\<close>

datatype result = Panic | Return "AgentPool option" "error option"

text \<open>
  The provisioning states \<open>infrav1.Canceled\<close>, \<open>infrav1.Failed\<close> and
  \<open>infrav1.Succeeded\<close>, spelled as the source's own message spells them, and the SDK's
  \<open>AgentPoolTypeVirtualMachineScaleSets\<close>.
\<close>

definition infrav1_Canceled :: string where "infrav1_Canceled = ''Canceled''"
definition infrav1_Failed :: string where "infrav1_Failed = ''Failed''"
definition infrav1_Succeeded :: string where "infrav1_Succeeded = ''Succeeded''"

definition AgentPoolTypeVirtualMachineScaleSets :: string where
  "AgentPoolTypeVirtualMachineScaleSets = ''VirtualMachineScaleSets''"

subsection \<open>Structural comparison (\<open>cmp.Diff\<close>)\<close>

text \<open>
  \<open>cmp.Diff(x, y)\<close> of go-cmp is the empty string exactly when \<open>cmp.Equal(x, y)\<close>.
  \<open>cmp.Equal\<close> compares structs field by field, pointers by nil-ness and then by
  pointee, slices by nil-ness and then element by element, and maps by nil-ness and
  then by key set and the values under each key. A nil map and an empty map differ.
\<close>

definition labels_Equal :: "labels \<Rightarrow> labels \<Rightarrow> bool" where
  "labels_Equal m n = list_all (\<lambda>k. map_of m k = map_of n k) (map fst m @ map fst n)"

definition NodeLabels_Equal :: "heap \<Rightarrow> addr option \<Rightarrow> addr option \<Rightarrow> bool" where
  "NodeLabels_Equal h x y =
     (case x of
        None \<Rightarrow> (case y of None \<Rightarrow> True | Some b \<Rightarrow> False)
      | Some a \<Rightarrow> (case y of None \<Rightarrow> False | Some b \<Rightarrow> labels_Equal (h a) (h b)))"

definition Properties_Equal ::
  "heap \<Rightarrow> ManagedClusterAgentPoolProfileProperties \<Rightarrow> ManagedClusterAgentPoolProfileProperties \<Rightarrow> bool" where
  "Properties_Equal h p q =
     (ap_AvailabilityZones p = ap_AvailabilityZones q \<and> ap_Count p = ap_Count q \<and>
      ap_EnableAutoScaling p = ap_EnableAutoScaling q \<and>
      ap_EnableUltraSSD p = ap_EnableUltraSSD q \<and> ap_MaxCount p = ap_MaxCount q \<and>
      ap_MaxPods p = ap_MaxPods q \<and> ap_MinCount p = ap_MinCount q \<and>
      ap_Mode p = ap_Mode q \<and> NodeLabels_Equal h (ap_NodeLabels p) (ap_NodeLabels q) \<and>
      ap_NodeTaints p = ap_NodeTaints q \<and>
      ap_OrchestratorVersion p = ap_OrchestratorVersion q \<and>
      ap_OsDiskSizeGB p = ap_OsDiskSizeGB q \<and> ap_OsDiskType p = ap_OsDiskType q \<and>
      ap_OsType p = ap_OsType q \<and> ap_ScaleSetPriority p = ap_ScaleSetPriority q \<and>
      ap_Type p = ap_Type q \<and> ap_VMSize p = ap_VMSize q \<and>
      ap_VnetSubnetID p = ap_VnetSubnetID q \<and>
      ap_EnableNodePublicIP p = ap_EnableNodePublicIP q \<and>
      ap_NodePublicIPPrefixID p = ap_NodePublicIPPrefixID q \<and>
      ap_ProvisioningState p = ap_ProvisioningState q)"

definition cmp_Equal :: "heap \<Rightarrow> AgentPool \<Rightarrow> AgentPool \<Rightarrow> bool" where
  "cmp_Equal h x y =
     (ap_ID x = ap_ID y \<and> ap_Name x = ap_Name y \<and> ap_PoolType x = ap_PoolType y \<and>
      (case ap_Properties x of
         None \<Rightarrow> (case ap_Properties y of None \<Rightarrow> True | Some q \<Rightarrow> False)
       | Some p \<Rightarrow> (case ap_Properties y of None \<Rightarrow> False | Some q \<Rightarrow> Properties_Equal h p q)))"

subsection \<open>\<open>mergeSystemNodeLabels\<close>\<close>

text \<open>
  Modelled from the spec: \<open>azureutil.IsAzureSystemNodeLabelKey\<close> is not among the
  sources. The comments of \<open>mergeSystemNodeLabels\<close> and of its call say which keys it
  accepts: those that begin with \<open>kubernetes.azure.com\<close>.
\<close>

definition AzureSystemNodeLabelPrefix :: string where
  "AzureSystemNodeLabelPrefix = ''kubernetes.azure.com''"

definition IsAzureSystemNodeLabelKey :: "string \<Rightarrow> bool" where
  "IsAzureSystemNodeLabelKey labelKey = prefix AzureSystemNodeLabelPrefix labelKey"

text \<open>
  The loop of \<open>mergeSystemNodeLabels\<close> over the keys of \<open>aks\<close>. \<open>ret\<close> is the
  reference \<open>capz\<close> itself, so each assignment writes the store at that address; an
  assignment into a nil map panics (\<open>None\<close>). \<open>aks[k]\<close> is read from the current store.
\<close>

fun mergeLoop :: "heap \<Rightarrow> addr option \<Rightarrow> addr \<Rightarrow> string list \<Rightarrow> heap option" where
  "mergeLoop h ret aks [] = Some h"
| "mergeLoop h ret aks (aksNodeLabelKey # ks) =
     (if IsAzureSystemNodeLabelKey aksNodeLabelKey then
        (case ret of
           None \<Rightarrow> None
         | Some r \<Rightarrow>
             mergeLoop (h(r := AList.update aksNodeLabelKey (map_index (h aks) aksNodeLabelKey) (h r)))
               ret aks ks)
      else mergeLoop h ret aks ks)"

definition mergeSystemNodeLabels ::
  "heap \<Rightarrow> addr option \<Rightarrow> addr option \<Rightarrow> (heap \<times> addr option) option" where
  "mergeSystemNodeLabels h capz aks =
     (case aks of
        None \<Rightarrow> Some (h, capz)
      | Some a \<Rightarrow>
          (case mergeLoop h capz a (range_keys (h a)) of
             None \<Rightarrow> None
           | Some h' \<Rightarrow> Some (h', capz)))"

subsection \<open>\<open>Parameters\<close>\<close>

text \<open>The two projections that are compared, and the payload that is returned.\<close>

definition existingProfile :: "ManagedClusterAgentPoolProfileProperties \<Rightarrow> AgentPool" where
  "existingProfile existingPool = AgentPool_of (zero_Properties \<lparr>
     ap_Count := ap_Count existingPool,
     ap_OrchestratorVersion := ap_OrchestratorVersion existingPool,
     ap_Mode := ap_Mode existingPool,
     ap_EnableAutoScaling := ap_EnableAutoScaling existingPool,
     ap_MinCount := ap_MinCount existingPool,
     ap_MaxCount := ap_MaxCount existingPool,
     ap_NodeLabels := ap_NodeLabels existingPool,
     ap_NodeTaints := ap_NodeTaints existingPool \<rparr>)"

definition normalizedProfile ::
  "AgentPoolSpec \<Rightarrow> ManagedClusterAgentPoolProfileProperties \<Rightarrow> ManagedClusterAgentPoolProfileProperties" where
  "normalizedProfile s existingPool =
     (let normalized = zero_Properties \<lparr>
        ap_Count := Some (Replicas s),
        ap_OrchestratorVersion := Version s,
        ap_Mode := Mode s,
        ap_EnableAutoScaling := EnableAutoScaling s,
        ap_MinCount := MinCount s,
        ap_MaxCount := MaxCount s,
        ap_NodeLabels := NodeLabels s,
        ap_NodeTaints := ap_NodeTaints existingPool \<rparr>
      in if to_Bool (EnableAutoScaling s)
         then normalized \<lparr> ap_Count := ap_Count existingPool \<rparr>
         else normalized)"

definition payload :: "AgentPoolSpec \<Rightarrow> addr option \<Rightarrow> AgentPool" where
  "payload s nodeLabels =
     (let availabilityZones = (if length (AvailabilityZones s) > 0 then Some (AvailabilityZones s) else None);
          replicas = (if 0 <s Replicas s then Some (Replicas s) else None);
          nodeTaints = (if length (NodeTaints s) > 0 then Some (NodeTaints s) else None);
          sku = (if SKU s \<noteq> [] then Some (SKU s) else None);
          vnetSubnetID = (if VnetSubnetID s \<noteq> [] then Some (VnetSubnetID s) else None)
      in AgentPool_of \<lparr>
           ap_AvailabilityZones = availabilityZones,
           ap_Count = replicas,
           ap_EnableAutoScaling = EnableAutoScaling s,
           ap_EnableUltraSSD = EnableUltraSSD s,
           ap_MaxCount = MaxCount s,
           ap_MaxPods = MaxPods s,
           ap_MinCount = MinCount s,
           ap_Mode = Mode s,
           ap_NodeLabels = nodeLabels,
           ap_NodeTaints = nodeTaints,
           ap_OrchestratorVersion = Version s,
           ap_OsDiskSizeGB = Some (OSDiskSizeGB s),
           ap_OsDiskType = to_String (OsDiskType s),
           ap_OsType = to_String (OSType s),
           ap_ScaleSetPriority = to_String (ScaleSetPriority s),
           ap_Type = AgentPoolTypeVirtualMachineScaleSets,
           ap_VMSize = sku,
           ap_VnetSubnetID = vnetSubnetID,
           ap_EnableNodePublicIP = EnableNodePublicIP s,
           ap_NodePublicIPPrefixID = NodePublicIPPrefixID s,
           ap_ProvisioningState = None \<rparr>)"

definition nonTerminalMessage :: "string \<Rightarrow> string" where
  "nonTerminalMessage ps =
     ''Unable to update existing agent pool in non terminal state. Agent pool must be in one of the following provisioning states: Canceled, Failed, or Succeeded. Actual state: '' @ ps"

definition Parameters :: "heap \<Rightarrow> AgentPoolSpec \<Rightarrow> existing \<Rightarrow> heap \<times> result" where
  "Parameters h s existing =
     (case existing of
        ENil \<Rightarrow> (h, Return (Some (payload s (NodeLabels s))) None)
      | EOther T \<Rightarrow>
          (h, Return None (Some (errors_New (T @ '' is not a containerservice.AgentPool''))))
      | EAgentPool pool \<Rightarrow>
          (case ap_Properties pool of
             None \<Rightarrow> (h, Panic)
           | Some existingPool \<Rightarrow>
               (case ap_ProvisioningState existingPool of
                  None \<Rightarrow> (h, Panic)
                | Some ps \<Rightarrow>
                    if ps \<noteq> infrav1_Canceled \<and> ps \<noteq> infrav1_Failed \<and> ps \<noteq> infrav1_Succeeded
                    then (h, Return None
                            (Some (WithTransientError (errors_New (nonTerminalMessage ps))
                                     (20 * time_Second))))
                    else if cmp_Equal h (AgentPool_of (normalizedProfile s existingPool))
                                      (existingProfile existingPool)
                    then (h, Return None None)
                    else (case ap_NodeLabels (normalizedProfile s existingPool) of
                            None \<Rightarrow> (h, Return (Some (payload s (NodeLabels s))) None)
                          | Some capz \<Rightarrow>
                              (case mergeSystemNodeLabels h (Some capz) (ap_NodeLabels existingPool) of
                                 None \<Rightarrow> (h, Panic)
                               | Some (h', nodeLabels) \<Rightarrow>
                                   (h', Return (Some (payload s nodeLabels)) None))))))"

text \<open>
  Modelled from the spec: the agent pool service that calls \<open>Parameters\<close> is not among
  the sources. Section 4.4 of the specification describes its submit step: build the
  payload; if the payload is nil, terminate the attempt successfully with a no-op;
  otherwise submit the payload to the remote API. An error of \<open>Parameters\<close> ends the
  attempt before anything is submitted. \<open>Submit\<close> lists the submit calls of one attempt.
\<close>

datatype call = CreateOrUpdateCall AgentPool

definition Submit :: "result \<Rightarrow> call list" where
  "Submit r =
     (case r of
        Panic \<Rightarrow> []
      | Return params err \<Rightarrow>
          (case err of
             Some e \<Rightarrow> []
           | None \<Rightarrow> (case params of None \<Rightarrow> [] | Some p \<Rightarrow> [CreateOrUpdateCall p])))"

text \<open>
  The comparison of section 3 and 4.2 of the specification in its own words, on the
  fields of the spec and of the existing pool: count (unless autoscaling is enabled),
  version, mode, autoscaling flag, minimum and maximum count, and the label maps as
  sets of key/value pairs. The taints of both projections are those of the existing
  pool.
\<close>

definition projection_identical ::
  "heap \<Rightarrow> AgentPoolSpec \<Rightarrow> ManagedClusterAgentPoolProfileProperties \<Rightarrow> bool" where
  "projection_identical h s existingPool =
     ((to_Bool (EnableAutoScaling s) \<or> ap_Count existingPool = Some (Replicas s)) \<and>
      ap_OrchestratorVersion existingPool = Version s \<and>
      ap_Mode existingPool = Mode s \<and>
      ap_EnableAutoScaling existingPool = EnableAutoScaling s \<and>
      ap_MinCount existingPool = MinCount s \<and>
      ap_MaxCount existingPool = MaxCount s \<and>
      (case NodeLabels s of
         None \<Rightarrow> ap_NodeLabels existingPool = None
       | Some a \<Rightarrow>
           (case ap_NodeLabels existingPool of
              None \<Rightarrow> False
            | Some b \<Rightarrow> map_of (h a) = map_of (h b))))"

text \<open>The label a payload carries under a key, read through the store.\<close>

definition payload_label :: "heap \<Rightarrow> AgentPool \<Rightarrow> string \<Rightarrow> string option option" where
  "payload_label h p k =
     (case ap_Properties p of
        None \<Rightarrow> None
      | Some props \<Rightarrow> (case ap_NodeLabels props of None \<Rightarrow> None | Some a \<Rightarrow> map_of (h a) k))"

text \<open>The outcome of \<open>Parameters\<close> as the caller reads it: no-op, update, or neither.\<close>

definition is_noop :: "result \<Rightarrow> bool" where
  "is_noop r = (r = Return None None)"

definition is_update :: "result \<Rightarrow> bool" where
  "is_update r =
     (case r of
        Panic \<Rightarrow> False
      | Return params err \<Rightarrow> (case err of Some e \<Rightarrow> False | None \<Rightarrow> params \<noteq> None))"

section \<open>Virtual machines: package \<open>virtualmachines\<close>\<close>

subsection \<open>Data model\<close>

text \<open>
  \<open>infrav1.Image\<close> and \<open>infrav1.OSDisk\<close> as the source reads them (prefixes, since
  several structs share field names), and the VM \<open>Spec\<close>.
\<close>

record Image =
  img_ID :: "string option"
  img_SubscriptionID :: "string option"
  img_ResourceGroup :: "string option"
  img_Gallery :: "string option"
  img_Name :: "string option"
  img_Version :: "string option"
  img_Publisher :: "string option"
  img_Offer :: "string option"
  img_SKU :: "string option"

record OSDisk =
  osd_OSType :: string
  osd_DiskSizeGB :: int32
  osd_ManagedDisk_StorageAccountType :: string

record VMSpec =
  vm_Name :: string
  vm_NICName :: string
  vm_SSHKeyData :: string
  vm_Size :: string
  vm_Zone :: string
  vm_Image :: Image
  vm_OSDisk :: OSDisk
  vm_CustomData :: string

text \<open>
  The argument \<open>spec interface{}\<close> of the service's methods: a (non-nil) \<open>*Spec\<close>, or a
  value of another type, which the type assertion rejects.
\<close>

datatype spec_interface = ISpec VMSpec | IOther

text \<open>The Azure SDK's \<open>compute\<close> structs, with the fields the source sets.\<close>

record ImageReference =
  ir_Publisher :: "string option"
  ir_Offer :: "string option"
  ir_Sku :: "string option"
  ir_Version :: "string option"
  ir_ID :: "string option"

record compute_OSDisk =
  cd_Name :: "string option"
  cd_OsType :: string
  cd_CreateOption :: string
  cd_DiskSizeGB :: "int32 option"
  cd_ManagedDisk_StorageAccountType :: "string option"

record StorageProfile =
  sp_OsDisk :: "compute_OSDisk option"
  sp_ImageReference :: "ImageReference option"

record SSHPublicKey =
  key_Path :: "string option"
  key_KeyData :: "string option"

record OSProfile =
  os_ComputerName :: "string option"
  os_AdminUsername :: "string option"
  os_AdminPassword :: "string option"
  os_CustomData :: "string option"
  os_LinuxConfiguration_SSH_PublicKeys :: "SSHPublicKey list option"

record NetworkInterfaceReference =
  nir_ID :: "string option"
  nir_Primary :: "bool option"

record VirtualMachineProperties =
  vp_HardwareProfile_VMSize :: "string option"
  vp_StorageProfile :: "StorageProfile option"
  vp_OsProfile :: "OSProfile option"
  vp_NetworkProfile_NetworkInterfaces :: "NetworkInterfaceReference list option"

record VirtualMachine =
  cvm_Location :: "string option"
  cvm_Tags :: "(string \<times> string option) list"
  cvm_Properties :: "VirtualMachineProperties option"
  cvm_Zones :: "string list option"

definition zero_VirtualMachine :: VirtualMachine where
  "zero_VirtualMachine =
     \<lparr> cvm_Location = None, cvm_Tags = [], cvm_Properties = None, cvm_Zones = None \<rparr>"

definition DiskCreateOptionTypesFromImage :: string where
  "DiskCreateOptionTypesFromImage = ''FromImage''"

text \<open>\<open>infrav1.BuildParams\<close>, the argument of the tag builder.\<close>

record BuildParams =
  bp_ClusterName :: string
  bp_Lifecycle :: string
  bp_Name :: "string option"
  bp_Role :: "string option"
  bp_Additional :: "(string \<times> string) list"

text \<open>
  A long-running operation handle: what waiting for it answers, and the error of its
  result (the result value itself is dropped by the source).
\<close>

record future =
  WaitForCompletionRef :: "error option"
  Result :: "error option"

text \<open>
  What the network interface service's \<open>Get\<close> returns as \<open>interface{}\<close>: a
  \<open>network.Interface\<close> with its ID, or something else.
\<close>

datatype nic_interface = NetworkInterface "string option" | NicOther

text \<open>
  The repository's own \<open>infrav1.VM\<close>, which \<open>converters.SDKToVM\<close> builds. Its
  declaration is not among the sources and nothing here looks inside: a value is a token.
\<close>

datatype infrav1_VM = infrav1_VM nat

text \<open>
  What \<open>Get\<close> returns as \<open>interface{}\<close>: the nil interface, a \<open>compute.VirtualMachine\<close>,
  or a \<open>*infrav1.VM\<close> (the interface is non-nil also when that pointer is nil).
\<close>

datatype get_value = GNil | GVirtualMachine VirtualMachine | GVM "infrav1_VM option"

text \<open>
  The service with its collaborators. The scopes and the clients are fields of the
  source's \<open>Service\<close>; a client is given by what it answers. The remaining fields are
  functions and constants of the repository and of its libraries that the source
  calls and that are not among the sources: they are parameters of the model.
\<close>

record Service =
  Scope_ResourceGroup :: string
  Scope_Location :: string
  Scope_Name :: string
  MachineScope_Name :: string
  MachineScope_Role :: string
  MachineScope_AdditionalTags :: "(string \<times> string) list"
  Client_Get :: "string \<Rightarrow> string \<Rightarrow> VirtualMachine \<times> error option"
  Client_CreateOrUpdate :: "string \<Rightarrow> string \<Rightarrow> VirtualMachine \<Rightarrow> future \<times> error option"
  Client_Delete :: "string \<Rightarrow> string \<Rightarrow> future \<times> error option"
  networkinterfaces_Get :: "string \<Rightarrow> nic_interface \<times> error option"
  ResourceNotFound :: "error \<Rightarrow> bool"
  SDKToVM :: "VirtualMachine \<Rightarrow> infrav1_VM option \<times> error option"
  GenerateOSDiskName :: "string \<Rightarrow> string"
  DefaultUserName :: string
  ClusterAzureCloudProviderTagKey :: "string \<Rightarrow> string"
  ResourceLifecycleOwned :: string
  TagsToMap_Build :: "BuildParams \<Rightarrow> (string \<times> string option) list"
  ssh_NewPublicKey :: "string \<Rightarrow> error + string"
  ssh_MarshalAuthorizedKey :: "string \<Rightarrow> string"

text \<open>
  The randomness of one run: what \<open>rsa.GenerateKey(rand.Reader, 2048)\<close> answers (an
  error or a private key) and what \<open>rand.Read\<close> answers for a buffer of \<open>n\<close> bytes (an
  error, or the bytes that fill the buffer).
\<close>

record Random =
  rsa_GenerateKey :: "error + string"
  rand_Read :: "nat \<Rightarrow> error + 8 word list"

subsection \<open>Image resolution\<close>

definition generateSIGImageID :: "Image \<Rightarrow> error + string" where
  "generateSIGImageID img =
     (case img_SubscriptionID img of
        None \<Rightarrow> Inl (errors_New ''Image subscription ID cannot be nil when specifying an image from an Azure Shared Image Gallery'')
      | Some sub \<Rightarrow>
     (case img_ResourceGroup img of
        None \<Rightarrow> Inl (errors_New ''Image resource group cannot be nil when specifying an image from an Azure Shared Image Gallery'')
      | Some rg \<Rightarrow>
     (case img_Gallery img of
        None \<Rightarrow> Inl (errors_New ''Image gallery cannot be nil when specifying an image from an Azure Shared Image Gallery'')
      | Some gallery \<Rightarrow>
     (case img_Name img of
        None \<Rightarrow> Inl (errors_New ''Image name cannot be nil when specifying an image from an Azure Shared Image Gallery'')
      | Some name \<Rightarrow>
     (case img_Version img of
        None \<Rightarrow> Inl (errors_New ''Image version cannot be nil when specifying an image from an Azure Shared Image Gallery'')
      | Some version \<Rightarrow>
          Inr (''/subscriptions/'' @ sub @ ''/resourceGroups/'' @ rg @
               ''/providers/Microsoft.Compute/galleries/'' @ gallery @
               ''/images/'' @ name @ ''/versions/'' @ version))))))"

definition generateImagePlan :: "Image \<Rightarrow> error + ImageReference" where
  "generateImagePlan img =
     (if img_Publisher img = None
      then Inl (errors_New ''Image reference cannot be generated, as Publisher field is missing'')
      else if img_Offer img = None
      then Inl (errors_New ''Image reference cannot be generated, as Offer field is missing'')
      else if img_SKU img = None
      then Inl (errors_New ''Image reference cannot be generated, as SKU field is missing'')
      else if img_Version img = None
      then Inl (errors_New ''Image reference cannot be generated, as Version field is missing'')
      else Inr \<lparr> ir_Publisher = img_Publisher img, ir_Offer = img_Offer img,
                 ir_Sku = img_SKU img, ir_Version = img_Version img, ir_ID = None \<rparr>)"

definition zero_ImageReference :: ImageReference where
  "zero_ImageReference =
     \<lparr> ir_Publisher = None, ir_Offer = None, ir_Sku = None, ir_Version = None, ir_ID = None \<rparr>"

definition generateImageReference :: "Image \<Rightarrow> error + ImageReference" where
  "generateImageReference img =
     (let imageRef = zero_ImageReference
      in if img_ID img \<noteq> None
         then Inr (imageRef \<lparr> ir_ID := img_ID img \<rparr>)
         else (case generateSIGImageID img of
                 Inr imageID \<Rightarrow> Inr (imageRef \<lparr> ir_ID := Some imageID \<rparr>)
               | Inl err \<Rightarrow> generateImagePlan img))"

definition generateStorageProfile :: "Service \<Rightarrow> VMSpec \<Rightarrow> error + StorageProfile" where
  "generateStorageProfile svc vmSpec =
     (let storageProfile = \<lparr>
            sp_OsDisk = Some \<lparr>
              cd_Name = Some (GenerateOSDiskName svc (vm_Name vmSpec)),
              cd_OsType = osd_OSType (vm_OSDisk vmSpec),
              cd_CreateOption = DiskCreateOptionTypesFromImage,
              cd_DiskSizeGB = Some (osd_DiskSizeGB (vm_OSDisk vmSpec)),
              cd_ManagedDisk_StorageAccountType =
                Some (osd_ManagedDisk_StorageAccountType (vm_OSDisk vmSpec)) \<rparr>,
            sp_ImageReference = None \<rparr>
      in case generateImageReference (vm_Image vmSpec) of
           Inl err \<Rightarrow> Inl err
         | Inr imageRef \<Rightarrow> Inr (storageProfile \<lparr> sp_ImageReference := Some imageRef \<rparr>))"

subsection \<open>Random strings\<close>

text \<open>
  \<open>base64.URLEncoding.EncodeToString\<close> of Go's standard library: three bytes give four
  characters of the URL-safe alphabet; a last group of one or two bytes is padded
  with \<open>=\<close>.
\<close>

definition encodeURL :: string where
  "encodeURL = ''ABCDEFGHIJKLMNOPQRSTUVWXYZabcdefghijklmnopqrstuvwxyz0123456789-_''"

definition b64 :: "8 word \<Rightarrow> char" where
  "b64 v = encodeURL ! unat (v AND 63)"

fun EncodeToString :: "8 word list \<Rightarrow> string" where
  "EncodeToString (a # b # c # src) =
     [b64 (drop_bit 2 a),
      b64 (push_bit 4 (a AND 3) OR drop_bit 4 b),
      b64 (push_bit 2 (b AND 15) OR drop_bit 6 c),
      b64 c] @ EncodeToString src"
| "EncodeToString [a, b] =
     [b64 (drop_bit 2 a),
      b64 (push_bit 4 (a AND 3) OR drop_bit 4 b),
      b64 (push_bit 2 (b AND 15)),
      CHR ''='']"
| "EncodeToString [a] =
     [b64 (drop_bit 2 a), b64 (push_bit 4 (a AND 3)), CHR ''='', CHR ''='']"
| "EncodeToString [] = []"

definition GenerateRandomString :: "Random \<Rightarrow> nat \<Rightarrow> error + string" where
  "GenerateRandomString rnd n =
     (case rand_Read rnd n of
        Inl err \<Rightarrow> Inl err
      | Inr b \<Rightarrow> Inr (EncodeToString b))"

subsection \<open>\<open>Get\<close>, \<open>Reconcile\<close>, \<open>Delete\<close>\<close>

definition Get :: "Service \<Rightarrow> spec_interface \<Rightarrow> get_value \<times> error option" where
  "Get svc spec =
     (case spec of
        IOther \<Rightarrow> (GVirtualMachine zero_VirtualMachine, Some (errors_New ''invalid vm specification''))
      | ISpec vmSpec \<Rightarrow>
          (case Client_Get svc (Scope_ResourceGroup svc) (vm_Name vmSpec) of
             (vm, err) \<Rightarrow>
               (case err of
                  Some e \<Rightarrow>
                    if ResourceNotFound svc e
                    then (GNil, Some (errors_Wrap e (''vm '' @ vm_Name vmSpec @ '' not found'')))
                    else (GVirtualMachine vm, Some e)
                | None \<Rightarrow> (case SDKToVM svc vm of (v, cerr) \<Rightarrow> (GVM v, cerr)))))"

text \<open>
  The SSH key of the payload: the spec's key, or, when that is empty, a generated one.
\<close>

definition sshKeyData :: "Service \<Rightarrow> Random \<Rightarrow> VMSpec \<Rightarrow> error + string" where
  "sshKeyData svc rnd vmSpec =
     (if vm_SSHKeyData vmSpec = []
      then (case rsa_GenerateKey rnd of
              Inl perr \<Rightarrow> Inl (errors_Wrap perr ''Failed to generate private key'')
            | Inr privateKey \<Rightarrow>
                (case ssh_NewPublicKey svc privateKey of
                   Inl perr \<Rightarrow> Inl (errors_Wrap perr ''Failed to generate public key'')
                 | Inr publicRsaKey \<Rightarrow> Inr (ssh_MarshalAuthorizedKey svc publicRsaKey)))
      else Inr (vm_SSHKeyData vmSpec))"

text \<open>
  The first part of \<open>Reconcile\<close>, up to the call of the client: the payload
  \<open>virtualMachine\<close>, or the error that ends the attempt before it.
\<close>

definition virtualMachine :: "Service \<Rightarrow> Random \<Rightarrow> VMSpec \<Rightarrow> error + VirtualMachine" where
  "virtualMachine svc rnd vmSpec =
     (case generateStorageProfile svc vmSpec of
        Inl err \<Rightarrow> Inl err
      | Inr storageProfile \<Rightarrow>
     (case networkinterfaces_Get svc (vm_NICName vmSpec) of
        (nicInterface, Some err) \<Rightarrow> Inl err
      | (nicInterface, None) \<Rightarrow>
     (case nicInterface of
        NicOther \<Rightarrow> Inl (errors_New ''error getting network security group'')
      | NetworkInterface nicID \<Rightarrow>
     (case sshKeyData svc rnd vmSpec of
        Inl err \<Rightarrow> Inl err
      | Inr keyData \<Rightarrow>
     (case GenerateRandomString rnd 32 of
        Inl err \<Rightarrow> Inl (errors_Wrap err ''failed to generate random string'')
      | Inr randomPassword \<Rightarrow>
          (let additionalTags =
                 AList.update (ClusterAzureCloudProviderTagKey svc (MachineScope_Name svc))
                   (ResourceLifecycleOwned svc) (MachineScope_AdditionalTags svc)
           in Inr \<lparr>
                cvm_Location = Some (Scope_Location svc),
                cvm_Tags = TagsToMap_Build svc \<lparr>
                  bp_ClusterName = Scope_Name svc,
                  bp_Lifecycle = ResourceLifecycleOwned svc,
                  bp_Name = Some (MachineScope_Name svc),
                  bp_Role = Some (MachineScope_Role svc),
                  bp_Additional = additionalTags \<rparr>,
                cvm_Properties = Some \<lparr>
                  vp_HardwareProfile_VMSize = Some (vm_Size vmSpec),
                  vp_StorageProfile = Some storageProfile,
                  vp_OsProfile = Some \<lparr>
                    os_ComputerName = Some (vm_Name vmSpec),
                    os_AdminUsername = Some (DefaultUserName svc),
                    os_AdminPassword = Some randomPassword,
                    os_CustomData = Some (vm_CustomData vmSpec),
                    os_LinuxConfiguration_SSH_PublicKeys = Some [\<lparr>
                      key_Path = Some (''/home/'' @ DefaultUserName svc @ ''/.ssh/authorized_keys''),
                      key_KeyData = Some keyData \<rparr>] \<rparr>,
                  vp_NetworkProfile_NetworkInterfaces = Some [\<lparr>
                    nir_ID = nicID, nir_Primary = Some True \<rparr>] \<rparr>,
                cvm_Zones = (if vm_Zone vmSpec \<noteq> [] then Some [vm_Zone vmSpec] else None) \<rparr>))))))"

definition Reconcile :: "Service \<Rightarrow> Random \<Rightarrow> spec_interface \<Rightarrow> error option" where
  "Reconcile svc rnd spec =
     (case spec of
        IOther \<Rightarrow> Some (errors_New ''invalid vm specification'')
      | ISpec vmSpec \<Rightarrow>
          (case virtualMachine svc rnd vmSpec of
             Inl err \<Rightarrow> Some err
           | Inr vm \<Rightarrow>
               (case Client_CreateOrUpdate svc (Scope_ResourceGroup svc) (vm_Name vmSpec) vm of
                  (fut, Some err) \<Rightarrow> Some (errors_Wrap err ''cannot create vm'')
                | (fut, None) \<Rightarrow>
                    (case WaitForCompletionRef fut of
                       Some err \<Rightarrow>
                         Some (errors_Wrap err ''cannot get the vm create or update future response'')
                     | None \<Rightarrow> Result fut))))"

definition Delete :: "Service \<Rightarrow> spec_interface \<Rightarrow> error option" where
  "Delete svc spec =
     (case spec of
        IOther \<Rightarrow> Some (errors_New ''invalid vm Specification'')
      | ISpec vmSpec \<Rightarrow>
          (case Client_Delete svc (Scope_ResourceGroup svc) (vm_Name vmSpec) of
             (fut, err) \<Rightarrow>
               if err \<noteq> None \<and> ResourceNotFound svc (the err)
               then None
               else if err \<noteq> None
               then Some (errors_Wrap (the err)
                            (''failed to delete vm '' @ vm_Name vmSpec @
                             '' in resource group '' @ Scope_ResourceGroup svc))
               else (case WaitForCompletionRef fut of
                       Some werr \<Rightarrow> Some (errors_Wrap werr ''cannot delete, future response'')
                     | None \<Rightarrow> Result fut)))"

subsection \<open>Readings of a payload\<close>

text \<open>
  The payload with the administrator password blanked, the SSH keys it carries, and
  its administrator password: the credential fields of \<open>virtualMachine\<close>.
\<close>

definition without_AdminPassword :: "VirtualMachine \<Rightarrow> VirtualMachine" where
  "without_AdminPassword vm =
     vm \<lparr> cvm_Properties :=
            map_option (\<lambda>props. props \<lparr> vp_OsProfile :=
                          map_option (\<lambda>os. os \<lparr> os_AdminPassword := None \<rparr>) (vp_OsProfile props) \<rparr>)
              (cvm_Properties vm) \<rparr>"

definition KeyData :: "VirtualMachine \<Rightarrow> string option list" where
  "KeyData vm =
     (case cvm_Properties vm of
        None \<Rightarrow> []
      | Some props \<Rightarrow>
          (case vp_OsProfile props of
             None \<Rightarrow> []
           | Some os \<Rightarrow>
               (case os_LinuxConfiguration_SSH_PublicKeys os of
                  None \<Rightarrow> []
                | Some keys \<Rightarrow> map key_KeyData keys)))"

definition AdminPassword :: "VirtualMachine \<Rightarrow> string option" where
  "AdminPassword vm =
     (case cvm_Properties vm of
        None \<Rightarrow> None
      | Some props \<Rightarrow> (case vp_OsProfile props of None \<Rightarrow> None | Some os \<Rightarrow> os_AdminPassword os))"

text \<open>The fetch of \<open>Get\<close> reports that the resource does not exist.\<close>

definition fetch_not_found :: "Service \<Rightarrow> spec_interface \<Rightarrow> bool" where
  "fetch_not_found svc spec =
     (case spec of
        IOther \<Rightarrow> False
      | ISpec vmSpec \<Rightarrow>
          (case snd (Client_Get svc (Scope_ResourceGroup svc) (vm_Name vmSpec)) of
             None \<Rightarrow> False
           | Some e \<Rightarrow> ResourceNotFound svc e))"

section \<open>Example inputs\<close>

text \<open>
  An agent pool spec whose labels live at address 0, an existing pool whose labels live
  at address 1, and two stores: one where both maps hold the same labels (listed in a
  different order), one where the existing pool carries a label of the reserved prefix
  that the spec does not declare.
\<close>

definition example_spec :: AgentPoolSpec where
  "example_spec = \<lparr>
     Name = ''pool0'', ResourceGroup = ''rg'', Cluster = ''cluster'',
     Version = Some ''1.22.6'', SKU = ''Standard_D2s_v3'', Replicas = 3, OSDiskSizeGB = 128,
     VnetSubnetID = [], Mode = ''User'', MaxCount = Some 5, MinCount = Some 1,
     NodeLabels = Some 0, NodeTaints = [''dedicated=infra:NoSchedule''],
     EnableAutoScaling = Some True, AvailabilityZones = [], MaxPods = None,
     OsDiskType = None, EnableUltraSSD = None, OSType = None, Headers = [],
     EnableNodePublicIP = None, NodePublicIPPrefixID = None, ScaleSetPriority = None \<rparr>"

definition example_existing :: "string \<Rightarrow> int32 \<Rightarrow> ManagedClusterAgentPoolProfileProperties" where
  "example_existing ps n = zero_Properties \<lparr>
     ap_Count := Some n, ap_EnableAutoScaling := Some True, ap_MaxCount := Some 5,
     ap_MinCount := Some 1, ap_Mode := ''User'', ap_NodeLabels := Some 1,
     ap_OrchestratorVersion := Some ''1.22.6'', ap_VMSize := Some ''Standard_D2s_v3'',
     ap_ProvisioningState := Some ps \<rparr>"

definition example_pool :: "string \<Rightarrow> int32 \<Rightarrow> AgentPool" where
  "example_pool ps n = AgentPool_of (example_existing ps n)"

definition same_heap :: heap where
  "same_heap = (\<lambda>_. [])
     (0 := [(''team'', Some ''a''), (''tier'', Some ''web'')],
      1 := [(''tier'', Some ''web''), (''team'', Some ''a'')])"

definition system_heap :: heap where
  "system_heap = (\<lambda>_. [])
     (0 := [(''team'', Some ''a'')],
      1 := [(''team'', Some ''a''), (''kubernetes.azure.com/agentpool'', Some ''pool0'')])"

text \<open>
  A service whose client answers 404 for the machine \<open>gone\<close> and 409 for the machine
  \<open>busy\<close>, image descriptors for the marketplace and the gallery mode, a VM spec with an
  SSH key, and a random source that fills every buffer with one byte.
\<close>

definition example_future :: future where
  "example_future = \<lparr> WaitForCompletionRef = None, Result = None \<rparr>"

definition example_Service :: Service where
  "example_Service = \<lparr>
     Scope_ResourceGroup = ''rg'',
     Scope_Location = ''westeurope'',
     Scope_Name = ''cluster'',
     MachineScope_Name = ''machine-0'',
     MachineScope_Role = ''node'',
     MachineScope_AdditionalTags = [],
     Client_Get = (\<lambda>rg name.
        if name = ''gone'' then (zero_VirtualMachine, Some (autorest_DetailedError 404 ''Not Found''))
        else if name = ''busy'' then (zero_VirtualMachine, Some (autorest_DetailedError 409 ''Conflict''))
        else (zero_VirtualMachine, None)),
     Client_CreateOrUpdate = (\<lambda>rg name vm. (example_future, None)),
     Client_Delete = (\<lambda>rg name.
        if name = ''gone'' then (example_future, Some (autorest_DetailedError 404 ''Not Found''))
        else if name = ''busy'' then (example_future, Some (autorest_DetailedError 409 ''Conflict''))
        else (example_future, None)),
     networkinterfaces_Get = (\<lambda>name. (NetworkInterface (Some (''nic/'' @ name)), None)),
     ResourceNotFound = (\<lambda>err. case err of autorest_DetailedError code msg \<Rightarrow> code = 404 | _ \<Rightarrow> False),
     SDKToVM = (\<lambda>vm. (None, None)),
     GenerateOSDiskName = (\<lambda>name. name @ ''_OSDisk''),
     DefaultUserName = ''capi'',
     ClusterAzureCloudProviderTagKey = (\<lambda>name. ''owner_'' @ name),
     ResourceLifecycleOwned = ''owned'',
     TagsToMap_Build = (\<lambda>params. map (\<lambda>(k, v). (k, Some v)) (bp_Additional params)),
     ssh_NewPublicKey = (\<lambda>key. Inr key),
     ssh_MarshalAuthorizedKey = (\<lambda>key. ''ssh-rsa '' @ key) \<rparr>"

definition zero_Image :: Image where
  "zero_Image = \<lparr> img_ID = None, img_SubscriptionID = None, img_ResourceGroup = None,
     img_Gallery = None, img_Name = None, img_Version = None, img_Publisher = None,
     img_Offer = None, img_SKU = None \<rparr>"

definition marketplace_Image :: Image where
  "marketplace_Image = zero_Image \<lparr> img_Version := Some ''latest'',
     img_Publisher := Some ''cncf-upstream'', img_Offer := Some ''capi'',
     img_SKU := Some ''k8s-1dot16-ubuntu-1804'' \<rparr>"

definition gallery_Image :: Image where
  "gallery_Image = marketplace_Image \<lparr> img_SubscriptionID := Some ''sub'',
     img_ResourceGroup := Some ''rg'', img_Gallery := Some ''gal'', img_Name := Some ''img'',
     img_Version := Some ''1.0.0'' \<rparr>"

definition example_VMSpec :: "string \<Rightarrow> VMSpec" where
  "example_VMSpec name = \<lparr> vm_Name = name, vm_NICName = name @ ''-nic'',
     vm_SSHKeyData = ''ssh-rsa AAAA'', vm_Size = ''Standard_B2ms'', vm_Zone = ''1'',
     vm_Image = marketplace_Image,
     vm_OSDisk = \<lparr> osd_OSType = ''Linux'', osd_DiskSizeGB = 30,
                    osd_ManagedDisk_StorageAccountType = ''Premium_LRS'' \<rparr>,
     vm_CustomData = '''' \<rparr>"

definition example_Random :: "8 word \<Rightarrow> Random" where
  "example_Random b = \<lparr> rsa_GenerateKey = Inr ''key'', rand_Read = (\<lambda>n. Inr (replicate n b)) \<rparr>"

section \<open>Helper lemmas\<close>

lemmas terminal_defs = infrav1_Canceled_def infrav1_Failed_def infrav1_Succeeded_def

lemmas example_pool_defs = example_pool_def AgentPool_of_def example_existing_def zero_Properties_def

lemmas Parameters_defs = Parameters_def terminal_defs cmp_Equal_def Properties_Equal_def
  NodeLabels_Equal_def labels_Equal_def normalizedProfile_def existingProfile_def to_Bool_def
  mergeSystemNodeLabels_def range_keys_def map_index_def IsAzureSystemNodeLabelKey_def
  AzureSystemNodeLabelPrefix_def

lemmas virtualMachine_defs = virtualMachine_def generateStorageProfile_def
  generateImageReference_def generateSIGImageID_def generateImagePlan_def example_VMSpec_def
  marketplace_Image_def zero_Image_def example_Service_def sshKeyData_def
  GenerateRandomString_def example_Random_def Let_def

text \<open>The executable comparison of two label maps is equality of the maps.\<close>

lemma labels_Equal_iff: "labels_Equal m n \<longleftrightarrow> map_of m = map_of n"
proof
  assume eq: "labels_Equal m n"
  show "map_of m = map_of n"
  proof
    fix k
    show "map_of m k = map_of n k"
    proof (cases "k \<in> fst ` set m \<union> fst ` set n")
      case True
      with eq show ?thesis by (auto simp: labels_Equal_def list_all_iff)
    next
      case False
      then have "map_of m k = None" "map_of n k = None"
        by (simp_all add: map_of_eq_None_iff)
      then show ?thesis by simp
    qed
  qed
next
  assume "map_of m = map_of n"
  then show "labels_Equal m n" by (simp add: labels_Equal_def list_all_iff)
qed

lemma cmp_Equal_projection:
  "cmp_Equal h (AgentPool_of (normalizedProfile s e)) (existingProfile e) \<longleftrightarrow> projection_identical h s e"
  by (auto simp: cmp_Equal_def AgentPool_of_def normalizedProfile_def existingProfile_def
      Properties_Equal_def zero_Properties_def projection_identical_def NodeLabels_Equal_def
      labels_Equal_iff Let_def split: option.splits)

text \<open>
  The loop never panics on a non-nil \<open>ret\<close>; it writes the store at \<open>ret\<close> only, and the
  map there ends with every reserved key of \<open>aks\<close> bound as in \<open>aks\<close>. This holds also
  when \<open>ret\<close> and \<open>aks\<close> are one map.
\<close>

lemma map_index_update:
  "map_index (AList.update k (map_index m k) m) = map_index m"
  by (rule ext) (simp add: map_index_def update_conv' split: option.splits)

lemma mergeLoop_Some:
  "\<exists>L. mergeLoop h (Some r) a ks = Some (h(r := L)) \<and>
       map_of L = (\<lambda>k. if k \<in> set ks \<and> IsAzureSystemNodeLabelKey k
                        then Some (map_index (h a) k) else map_of (h r) k)"
proof (induction ks arbitrary: h)
  case Nil
  have "h(r := h r) = h" by simp
  then show ?case by (intro exI[of _ "h r"]) simp
next
  case (Cons k ks)
  show ?case
  proof (cases "IsAzureSystemNodeLabelKey k")
    case False
    from Cons.IH[of h] obtain L where L: "mergeLoop h (Some r) a ks = Some (h(r := L))"
      "map_of L = (\<lambda>k. if k \<in> set ks \<and> IsAzureSystemNodeLabelKey k
                        then Some (map_index (h a) k) else map_of (h r) k)" by blast
    show ?thesis using False L by (intro exI[of _ L]) (auto simp: fun_eq_iff)
  next
    case True
    define h1 where "h1 = h(r := AList.update k (map_index (h a) k) (h r))"
    have idx: "map_index (h1 a) = map_index (h a)"
      by (cases "a = r") (simp_all add: h1_def map_index_update)
    from Cons.IH[of h1] obtain L where L: "mergeLoop h1 (Some r) a ks = Some (h1(r := L))"
      "map_of L = (\<lambda>k. if k \<in> set ks \<and> IsAzureSystemNodeLabelKey k
                        then Some (map_index (h1 a) k) else map_of (h1 r) k)" by blast
    have "h1(r := L) = h(r := L)" by (simp add: h1_def)
    with L True idx show ?thesis
      by (intro exI[of _ L]) (auto simp: fun_eq_iff h1_def update_conv')
  qed
qed

lemma mergeSystemNodeLabels_Some:
  "\<exists>L. mergeSystemNodeLabels h (Some capz) (Some aks) = Some (h(capz := L), Some capz) \<and>
       map_of L = (\<lambda>k. if k \<in> fst ` set (h aks) \<and> IsAzureSystemNodeLabelKey k
                        then Some (map_index (h aks) k) else map_of (h capz) k)"
proof -
  from mergeLoop_Some[of h capz aks "range_keys (h aks)"] obtain L where
    L: "mergeLoop h (Some capz) aks (range_keys (h aks)) = Some (h(capz := L))"
       "map_of L = (\<lambda>k. if k \<in> set (range_keys (h aks)) \<and> IsAzureSystemNodeLabelKey k
                        then Some (map_index (h aks) k) else map_of (h capz) k)" by blast
  show ?thesis using L
    by (intro exI[of _ L]) (simp add: mergeSystemNodeLabels_def range_keys_def)
qed

lemma normalizedProfile_NodeTaints:
  "normalizedProfile (s\<lparr>NodeTaints := t\<rparr>) e = normalizedProfile s e"
  by (simp add: normalizedProfile_def)

text \<open>
  \<open>Parameters\<close> writes the store at most at the address of the spec's own label map.
\<close>

lemma Parameters_store_elsewhere:
  assumes "NodeLabels s \<noteq> Some a"
  shows "fst (Parameters h s existing) a = h a"
proof (cases "NodeLabels s")
  case None
  then show ?thesis
    by (simp add: Parameters_def normalizedProfile_def Let_def zero_Properties_def
        split: existing.splits option.splits)
next
  case (Some capz)
  then have ne: "capz \<noteq> a" using assms by simp
  have nl: "\<And>e. ap_NodeLabels (normalizedProfile s e) = Some capz"
    using Some by (simp add: normalizedProfile_def Let_def zero_Properties_def)
  have m: "\<And>aks. \<exists>h'. mergeSystemNodeLabels h (Some capz) aks = Some (h', Some capz) \<and> h' a = h a"
  proof -
    fix aks show "\<exists>h'. mergeSystemNodeLabels h (Some capz) aks = Some (h', Some capz) \<and> h' a = h a"
    proof (cases aks)
      case None then show ?thesis by (simp add: mergeSystemNodeLabels_def)
    next
      case (Some b)
      from mergeSystemNodeLabels_Some[of h capz b] obtain L where
        "mergeSystemNodeLabels h (Some capz) (Some b) = Some (h(capz := L), Some capz)" by blast
      with Some ne show ?thesis by auto
    qed
  qed
  show ?thesis
  proof (cases existing)
    case (EAgentPool pool)
    show ?thesis
    proof (cases "ap_Properties pool")
      case None with EAgentPool show ?thesis by (simp add: Parameters_def)
    next
      case (Some e)
      from m[of "ap_NodeLabels e"] obtain h' where
        "mergeSystemNodeLabels h (Some capz) (ap_NodeLabels e) = Some (h', Some capz)" "h' a = h a" by blast
      with EAgentPool Some nl show ?thesis
        by (simp add: Parameters_def split: option.splits)
    qed
  qed (simp_all add: Parameters_def)
qed

text \<open>A pool without properties or without a provisioning state makes \<open>Parameters\<close> panic.\<close>

lemma Parameters_nil_state_panics:
  "ap_Properties pool = None \<or>
   (\<exists>existingPool. ap_Properties pool = Some existingPool \<and> ap_ProvisioningState existingPool = None)
   \<Longrightarrow> Parameters h s (EAgentPool pool) = (h, Panic)"
  by (auto simp: Parameters_def)

lemma generateSIGImageID_complete:
  assumes "img_SubscriptionID img = Some sub" "img_ResourceGroup img = Some rg"
    "img_Gallery img = Some gallery" "img_Name img = Some name" "img_Version img = Some version"
  shows "generateSIGImageID img = Inr (''/subscriptions/'' @ sub @ ''/resourceGroups/'' @ rg @
               ''/providers/Microsoft.Compute/galleries/'' @ gallery @
               ''/images/'' @ name @ ''/versions/'' @ version)"
  using assms by (simp add: generateSIGImageID_def)

lemma generateSIGImageID_incomplete:
  assumes "img_SubscriptionID img = None \<or> img_ResourceGroup img = None \<or>
    img_Gallery img = None \<or> img_Name img = None \<or> img_Version img = None"
  shows "\<exists>err. generateSIGImageID img = Inl err"
  using assms by (auto simp: generateSIGImageID_def split: option.splits)

lemma example_password:
  "AdminPassword (projr (virtualMachine example_Service (example_Random b) (example_VMSpec ''vm0''))) =
     Some (EncodeToString (replicate 32 b))"
  by (simp add: virtualMachine_def generateStorageProfile_def generateImageReference_def
      generateSIGImageID_def generateImagePlan_def example_VMSpec_def marketplace_Image_def
      zero_Image_def example_Service_def sshKeyData_def GenerateRandomString_def example_Random_def
      AdminPassword_def Let_def)

section \<open>Agent pools: the claims about \<open>Parameters\<close>\<close>

text \<open>
  C1. For every agent pool spec and every existing agent pool whose provisioning state
  is a string other than \<open>Succeeded\<close>, \<open>Failed\<close> and \<open>Canceled\<close>, \<open>Parameters\<close> returns
  no payload and a transient error whose requeue delay is 20 seconds. The store is
  left as it was.
\<close>

theorem Parameters_non_terminal:
  assumes "ap_Properties pool = Some existingPool"
    and "ap_ProvisioningState existingPool = Some ps"
    and "ps \<noteq> ''Succeeded''" and "ps \<noteq> ''Failed''" and "ps \<noteq> ''Canceled''"
  shows "Parameters h s (EAgentPool pool) =
           (h, Return None (Some (WithTransientError (errors_New (nonTerminalMessage ps))
                                    (20 * time_Second))))"
  using assms
  by (simp add: Parameters_def infrav1_Canceled_def infrav1_Failed_def infrav1_Succeeded_def)

theorem Parameters_non_terminal_witness:
  "ap_ProvisioningState (example_existing ''Updating'' 3) = Some ''Updating'' \<and>
   Parameters system_heap example_spec (EAgentPool (example_pool ''Updating'' 3)) =
     (system_heap, Return None (Some (WithTransientError
        (errors_New (nonTerminalMessage ''Updating'')) (20 * time_Second))))"
  using Parameters_non_terminal[of "example_pool ''Updating'' 3" "example_existing ''Updating'' 3"
      "''Updating''" system_heap example_spec]
  by (simp add: example_pool_defs)

text \<open>
  C2. For every agent pool spec and every existing agent pool in a terminal state: if
  the two comparison projections are identical (count unless autoscaling is enabled,
  version, mode, autoscaling flag, minimum and maximum count, labels), \<open>Parameters\<close>
  returns \<open>(nil, nil)\<close> and leaves the store as it was, so a repeated call answers the
  same; the submit step then issues no call.
\<close>

theorem Parameters_noop_when_identical:
  assumes "ap_Properties pool = Some existingPool"
    and "ap_ProvisioningState existingPool = Some ps"
    and "ps = ''Succeeded'' \<or> ps = ''Failed'' \<or> ps = ''Canceled''"
    and "projection_identical h s existingPool"
  shows "Parameters h s (EAgentPool pool) = (h, Return None None) \<and>
         Submit (snd (Parameters h s (EAgentPool pool))) = []"
proof -
  from assms(4) have "cmp_Equal h (AgentPool_of (normalizedProfile s existingPool)) (existingProfile existingPool)"
    by (simp add: cmp_Equal_projection)
  with assms(1-3) have "Parameters h s (EAgentPool pool) = (h, Return None None)"
    by (auto simp: Parameters_def infrav1_Canceled_def infrav1_Failed_def infrav1_Succeeded_def)
  then show ?thesis by (simp add: Submit_def)
qed

theorem Parameters_noop_when_identical_witness:
  "projection_identical same_heap example_spec (example_existing ''Succeeded'' 3) \<and>
   Parameters same_heap example_spec (EAgentPool (example_pool ''Succeeded'' 3)) =
     (same_heap, Return None None) \<and>
   Submit (snd (Parameters same_heap example_spec (EAgentPool (example_pool ''Succeeded'' 3)))) = []"
proof -
  have p: "projection_identical same_heap example_spec (example_existing ''Succeeded'' 3)"
    by (auto simp: projection_identical_def example_spec_def example_existing_def
        zero_Properties_def same_heap_def to_Bool_def fun_eq_iff)
  have a: "ap_Properties (example_pool ''Succeeded'' 3) = Some (example_existing ''Succeeded'' 3)"
    by (simp add: example_pool_def AgentPool_of_def)
  have b: "ap_ProvisioningState (example_existing ''Succeeded'' 3) = Some ''Succeeded''"
    by (simp add: example_existing_def)
  show ?thesis
    using p Parameters_noop_when_identical[OF a b _ p] by (simp add: Submit_def)
qed

text \<open>
  C3. For every agent pool spec with autoscaling enabled and every existing agent pool
  in a terminal state: if the desired replica count differs from the existing count
  and version, mode, autoscaling flag, minimum and maximum count and labels are equal
  (the taints of both projections are the existing pool's), \<open>Parameters\<close> returns
  \<open>(nil, nil)\<close>.
\<close>

theorem Parameters_autoscaling_ignores_count:
  assumes "ap_Properties pool = Some existingPool"
    and "ap_ProvisioningState existingPool = Some ps"
    and "ps = ''Succeeded'' \<or> ps = ''Failed'' \<or> ps = ''Canceled''"
    and "EnableAutoScaling s = Some True"
    and "ap_Count existingPool \<noteq> Some (Replicas s)"
    and "ap_OrchestratorVersion existingPool = Version s"
    and "ap_Mode existingPool = Mode s"
    and "ap_EnableAutoScaling existingPool = EnableAutoScaling s"
    and "ap_MinCount existingPool = MinCount s"
    and "ap_MaxCount existingPool = MaxCount s"
    and "NodeLabels_Equal h (NodeLabels s) (ap_NodeLabels existingPool)"
  shows "Parameters h s (EAgentPool pool) = (h, Return None None)"
proof -
  have "projection_identical h s existingPool"
    using assms(4,6-11)
    by (auto simp: projection_identical_def to_Bool_def NodeLabels_Equal_def labels_Equal_iff
        split: option.splits)
  then have "cmp_Equal h (AgentPool_of (normalizedProfile s existingPool)) (existingProfile existingPool)"
    by (simp add: cmp_Equal_projection)
  with assms(1-3) show ?thesis
    by (auto simp: Parameters_def infrav1_Canceled_def infrav1_Failed_def infrav1_Succeeded_def)
qed

theorem Parameters_autoscaling_ignores_count_witness:
  "EnableAutoScaling example_spec = Some True \<and> Replicas example_spec = 3 \<and>
   ap_Count (example_existing ''Succeeded'' 7) = Some 7 \<and>
   Parameters same_heap example_spec (EAgentPool (example_pool ''Succeeded'' 7)) =
     (same_heap, Return None None)"
  using Parameters_autoscaling_ignores_count[of "example_pool ''Succeeded'' 7"
      "example_existing ''Succeeded'' 7" "''Succeeded''" example_spec same_heap]
  by (simp add: example_pool_defs example_spec_def same_heap_def NodeLabels_Equal_def
      labels_Equal_def)

text \<open>
  C4, as amended. For every agent pool spec whose label map is not nil and every
  existing agent pool in a terminal state for which \<open>Parameters\<close> returns a payload: a
  key of the reserved prefix that the existing labels bind is bound to the same value
  in the labels of the payload.
\<close>

theorem Parameters_preserves_system_labels:
  assumes "ap_Properties pool = Some existingPool"
    and "ap_ProvisioningState existingPool = Some ps"
    and "ps = ''Succeeded'' \<or> ps = ''Failed'' \<or> ps = ''Canceled''"
    and "Parameters h s (EAgentPool pool) = (h', Return (Some p) None)"
    and "NodeLabels s = Some capz"
    and "ap_NodeLabels existingPool = Some aks"
    and "IsAzureSystemNodeLabelKey k"
    and "map_of (h aks) k = Some v"
  shows "payload_label h' p k = Some v"
proof -
  obtain L where L: "mergeSystemNodeLabels h (Some capz) (Some aks) = Some (h(capz := L), Some capz)"
    "map_of L = (\<lambda>k. if k \<in> fst ` set (h aks) \<and> IsAzureSystemNodeLabelKey k
                        then Some (map_index (h aks) k) else map_of (h capz) k)"
    using mergeSystemNodeLabels_Some by blast
  have nl: "ap_NodeLabels (normalizedProfile s existingPool) = Some capz"
    using assms(5) by (simp add: normalizedProfile_def Let_def zero_Properties_def)
  have "h' = h(capz := L) \<and> p = payload s (Some capz)"
    using assms(1-4,6) L(1) nl
    by (auto simp: Parameters_def infrav1_Canceled_def infrav1_Failed_def infrav1_Succeeded_def
        split: if_splits)
  moreover have "k \<in> fst ` set (h aks)"
    using assms(8) by (force dest: map_of_SomeD)
  ultimately show ?thesis
    using L(2) assms(7,8)
    by (simp add: payload_label_def payload_def AgentPool_of_def map_index_def)
qed

theorem Parameters_preserves_system_labels_witness:
  "IsAzureSystemNodeLabelKey ''kubernetes.azure.com/agentpool'' \<and>
   map_of (system_heap 0) ''kubernetes.azure.com/agentpool'' = None \<and>
   map_of (system_heap 1) ''kubernetes.azure.com/agentpool'' = Some (Some ''pool0'') \<and>
   snd (Parameters system_heap example_spec (EAgentPool (example_pool ''Succeeded'' 3))) =
     Return (Some (payload example_spec (Some 0))) None \<and>
   payload_label (fst (Parameters system_heap example_spec (EAgentPool (example_pool ''Succeeded'' 3))))
     (payload example_spec (Some 0)) ''kubernetes.azure.com/agentpool'' = Some (Some ''pool0'')"
proof -
  have a: "ap_Properties (example_pool ''Succeeded'' 3) = Some (example_existing ''Succeeded'' 3)"
    by (simp add: example_pool_def AgentPool_of_def)
  have b: "ap_ProvisioningState (example_existing ''Succeeded'' 3) = Some ''Succeeded''"
    by (simp add: example_existing_def)
  have r: "snd (Parameters system_heap example_spec (EAgentPool (example_pool ''Succeeded'' 3))) =
             Return (Some (payload example_spec (Some 0))) None"
    by (simp add: example_pool_defs example_spec_def system_heap_def Parameters_defs)
  then have c: "Parameters system_heap example_spec (EAgentPool (example_pool ''Succeeded'' 3)) =
      (fst (Parameters system_heap example_spec (EAgentPool (example_pool ''Succeeded'' 3))),
       Return (Some (payload example_spec (Some 0))) None)"
    by (simp add: prod_eq_iff)
  have d: "NodeLabels example_spec = Some 0"
    by (simp add: example_spec_def)
  have e: "ap_NodeLabels (example_existing ''Succeeded'' 3) = Some 1"
    by (simp add: example_existing_def)
  have f: "IsAzureSystemNodeLabelKey ''kubernetes.azure.com/agentpool''"
    by (simp add: IsAzureSystemNodeLabelKey_def AzureSystemNodeLabelPrefix_def)
  have g: "map_of (system_heap 1) ''kubernetes.azure.com/agentpool'' = Some (Some ''pool0'')"
    by (simp add: system_heap_def)
  have h: "map_of (system_heap 0) ''kubernetes.azure.com/agentpool'' = None"
    by (simp add: system_heap_def)
  show ?thesis
    using Parameters_preserves_system_labels[OF a b _ c d e f g] f g h r by simp
qed

text \<open>
  C4 as stated fails when the spec's label map is nil: the guard before the merge
  skips it, and the payload carries no labels at all.
\<close>

theorem Parameters_nil_labels_counterexample:
  "ap_ProvisioningState (example_existing ''Succeeded'' 3) = Some ''Succeeded'' \<and>
   NodeLabels (example_spec \<lparr> NodeLabels := None \<rparr>) = None \<and>
   ap_NodeLabels (example_existing ''Succeeded'' 3) = Some 1 \<and>
   IsAzureSystemNodeLabelKey ''kubernetes.azure.com/agentpool'' \<and>
   map_of (system_heap 1) ''kubernetes.azure.com/agentpool'' = Some (Some ''pool0'') \<and>
   Parameters system_heap (example_spec \<lparr> NodeLabels := None \<rparr>)
       (EAgentPool (example_pool ''Succeeded'' 3)) =
     (system_heap, Return (Some (payload (example_spec \<lparr> NodeLabels := None \<rparr>) None)) None) \<and>
   payload_label system_heap (payload (example_spec \<lparr> NodeLabels := None \<rparr>) None)
       ''kubernetes.azure.com/agentpool'' = None"
  by (simp add: example_pool_defs example_spec_def system_heap_def Parameters_defs
      payload_label_def payload_def)

text \<open>
  C7. \<open>Parameters\<close> is claimed never to change the spec, its label map included. At the
  example input the merge writes the reserved label of the existing pool into the map
  of the spec itself: the key is absent from the spec's map before the call and
  present after it.
\<close>

theorem Parameters_writes_spec_labels:
  "NodeLabels example_spec = Some 0 \<and>
   map_of (system_heap 0) ''kubernetes.azure.com/agentpool'' = None \<and>
   map_of (fst (Parameters system_heap example_spec (EAgentPool (example_pool ''Succeeded'' 3))) 0)
       ''kubernetes.azure.com/agentpool'' = Some (Some ''pool0'')"
  by (simp add: example_pool_defs example_spec_def system_heap_def Parameters_defs)

text \<open>
  C10. The taints of the desired projection are the existing pool's, so for every
  store and every existing object, replacing the taints of the spec changes neither
  whether \<open>Parameters\<close> reports a no-op nor whether it reports an update.
\<close>

theorem Parameters_decision_ignores_NodeTaints:
  "is_noop (snd (Parameters h (s\<lparr>NodeTaints := t\<rparr>) existing)) = is_noop (snd (Parameters h s existing)) \<and>
   is_update (snd (Parameters h (s\<lparr>NodeTaints := t\<rparr>) existing)) = is_update (snd (Parameters h s existing))"
  by (simp add: Parameters_def normalizedProfile_NodeTaints is_noop_def is_update_def
      split: existing.splits option.splits prod.splits)

section \<open>Virtual machines: the claims\<close>

text \<open>
  C5. Image resolution follows a strict precedence. An explicit ID is used verbatim,
  whatever the other fields hold. Without an ID and with all five gallery coordinates,
  the ID of the result is the gallery path built from them. Without an ID and with a
  gallery coordinate missing, the result is the marketplace mode's own result, and the
  error of the gallery step is never the error of the resolution.
\<close>

theorem generateImageReference_precedence:
  "(img_ID img1 = Some i \<longrightarrow>
      generateImageReference img1 = Inr (zero_ImageReference \<lparr> ir_ID := Some i \<rparr>)) \<and>
   (img_ID img2 = None \<and> img_SubscriptionID img2 = Some sub \<and> img_ResourceGroup img2 = Some rg \<and>
    img_Gallery img2 = Some gallery \<and> img_Name img2 = Some name \<and> img_Version img2 = Some version \<longrightarrow>
      generateImageReference img2 = Inr (zero_ImageReference \<lparr> ir_ID := Some
        (''/subscriptions/'' @ sub @ ''/resourceGroups/'' @ rg @
         ''/providers/Microsoft.Compute/galleries/'' @ gallery @
         ''/images/'' @ name @ ''/versions/'' @ version) \<rparr>)) \<and>
   (img_ID img3 = None \<and>
    (img_SubscriptionID img3 = None \<or> img_ResourceGroup img3 = None \<or> img_Gallery img3 = None \<or>
     img_Name img3 = None \<or> img_Version img3 = None) \<longrightarrow>
      generateImageReference img3 = generateImagePlan img3 \<and>
      (\<forall>err. generateSIGImageID img3 = Inl err \<longrightarrow> generateImageReference img3 \<noteq> Inl err))"
proof (intro conjI impI)
  assume "img_ID img1 = Some i"
  then show "generateImageReference img1 = Inr (zero_ImageReference \<lparr> ir_ID := Some i \<rparr>)"
    by (simp add: generateImageReference_def)
next
  assume a: "img_ID img2 = None \<and> img_SubscriptionID img2 = Some sub \<and> img_ResourceGroup img2 = Some rg \<and>
    img_Gallery img2 = Some gallery \<and> img_Name img2 = Some name \<and> img_Version img2 = Some version"
  then show "generateImageReference img2 = Inr (zero_ImageReference \<lparr> ir_ID := Some
        (''/subscriptions/'' @ sub @ ''/resourceGroups/'' @ rg @
         ''/providers/Microsoft.Compute/galleries/'' @ gallery @
         ''/images/'' @ name @ ''/versions/'' @ version) \<rparr>)"
    by (simp add: generateImageReference_def generateSIGImageID_complete)
next
  assume a: "img_ID img3 = None \<and>
    (img_SubscriptionID img3 = None \<or> img_ResourceGroup img3 = None \<or> img_Gallery img3 = None \<or>
     img_Name img3 = None \<or> img_Version img3 = None)"
  then obtain err where e: "generateSIGImageID img3 = Inl err"
    using generateSIGImageID_incomplete by blast
  with a show "generateImageReference img3 = generateImagePlan img3"
    by (simp add: generateImageReference_def)
next
  assume a: "img_ID img3 = None \<and>
    (img_SubscriptionID img3 = None \<or> img_ResourceGroup img3 = None \<or> img_Gallery img3 = None \<or>
     img_Name img3 = None \<or> img_Version img3 = None)"
  then obtain err where e: "generateSIGImageID img3 = Inl err"
    using generateSIGImageID_incomplete by blast
  with a have r: "generateImageReference img3 = generateImagePlan img3"
    by (simp add: generateImageReference_def)
  show "\<forall>err. generateSIGImageID img3 = Inl err \<longrightarrow> generateImageReference img3 \<noteq> Inl err"
    unfolding r
    by (auto simp: generateSIGImageID_def generateImagePlan_def split: option.splits if_splits)
qed

theorem generateImageReference_precedence_witness:
  "generateImageReference (gallery_Image \<lparr> img_ID := Some ''/my/image'' \<rparr>) =
     Inr (zero_ImageReference \<lparr> ir_ID := Some ''/my/image'' \<rparr>) \<and>
   generateImageReference gallery_Image =
     Inr (zero_ImageReference \<lparr> ir_ID := Some
       ''/subscriptions/sub/resourceGroups/rg/providers/Microsoft.Compute/galleries/gal/images/img/versions/1.0.0'' \<rparr>) \<and>
   generateImageReference (gallery_Image \<lparr> img_Gallery := None \<rparr>) =
     Inr \<lparr> ir_Publisher = Some ''cncf-upstream'', ir_Offer = Some ''capi'',
           ir_Sku = Some ''k8s-1dot16-ubuntu-1804'', ir_Version = Some ''1.0.0'', ir_ID = None \<rparr>"
  using generateImageReference_precedence[of "gallery_Image \<lparr> img_ID := Some ''/my/image'' \<rparr>"
      "''/my/image''" gallery_Image "''sub''" "''rg''" "''gal''" "''img''" "''1.0.0''"
      "gallery_Image \<lparr> img_Gallery := None \<rparr>"]
  by (simp add: gallery_Image_def marketplace_Image_def zero_Image_def generateImagePlan_def)

text \<open>
  C6. For every VM spec: when the delete submission answers an error that reports the
  resource as not found, \<open>Delete\<close> returns nil; when it answers any other error,
  \<open>Delete\<close> returns that error wrapped with the name of the machine and the resource
  group.
\<close>

theorem Delete_absent_or_wrapped:
  assumes "Client_Delete svc (Scope_ResourceGroup svc) (vm_Name vmSpec) = (fut, Some err)"
  shows "(ResourceNotFound svc err \<longrightarrow> Delete svc (ISpec vmSpec) = None) \<and>
         (\<not> ResourceNotFound svc err \<longrightarrow>
            Delete svc (ISpec vmSpec) =
              Some (errors_Wrap err (''failed to delete vm '' @ vm_Name vmSpec @
                                     '' in resource group '' @ Scope_ResourceGroup svc)))"
  using assms by (simp add: Delete_def)

theorem Delete_absent_or_wrapped_witness:
  "Delete example_Service (ISpec (example_VMSpec ''gone'')) = None \<and>
   Delete example_Service (ISpec (example_VMSpec ''busy'')) =
     Some (errors_Wrap (autorest_DetailedError 409 ''Conflict'')
             ''failed to delete vm busy in resource group rg'')"
  using Delete_absent_or_wrapped[of example_Service "example_VMSpec ''gone''" example_future
      "autorest_DetailedError 404 ''Not Found''"]
    Delete_absent_or_wrapped[of example_Service "example_VMSpec ''busy''" example_future
      "autorest_DetailedError 409 ''Conflict''"]
  by (simp add: example_Service_def example_VMSpec_def)

text \<open>
  C8, as amended. For every VM spec with a non-empty SSH key, key generation is not
  exercised: the SSH key of the run is the key of the spec whatever the random source
  answers, and the outcome of the payload construction does not depend on what
  \<open>rsa.GenerateKey\<close> answers. The only randomness left is the read of 32 bytes for the
  administrator password: two runs in which that read answers the same have the same
  outcome, and two runs that both produce a payload produce payloads that agree in
  every field other than the administrator password, with the key of the spec as
  their SSH key.
\<close>

theorem virtualMachine_random_only_in_password:
  assumes "vm_SSHKeyData vmSpec \<noteq> []"
  shows "sshKeyData svc rnd1 vmSpec = Inr (vm_SSHKeyData vmSpec) \<and>
         virtualMachine svc (rnd1 \<lparr> rsa_GenerateKey := key \<rparr>) vmSpec =
           virtualMachine svc rnd1 vmSpec \<and>
         (rand_Read rnd1 32 = rand_Read rnd2 32 \<longrightarrow>
            virtualMachine svc rnd1 vmSpec = virtualMachine svc rnd2 vmSpec) \<and>
         (virtualMachine svc rnd1 vmSpec = Inr vm1 \<and> virtualMachine svc rnd2 vmSpec = Inr vm2 \<longrightarrow>
            without_AdminPassword vm1 = without_AdminPassword vm2 \<and>
            KeyData vm1 = [Some (vm_SSHKeyData vmSpec)] \<and>
            KeyData vm2 = [Some (vm_SSHKeyData vmSpec)])"
proof -
  have key: "sshKeyData svc rnd vmSpec = Inr (vm_SSHKeyData vmSpec)" for rnd
    using assms by (simp add: sshKeyData_def)
  have rsa: "virtualMachine svc (rnd1 \<lparr> rsa_GenerateKey := key \<rparr>) vmSpec =
      virtualMachine svc rnd1 vmSpec"
    by (simp add: virtualMachine_def key GenerateRandomString_def
        split: sum.splits prod.splits option.splits nic_interface.splits)
  have rd: "virtualMachine svc rnd1 vmSpec = virtualMachine svc rnd2 vmSpec"
    if "rand_Read rnd1 32 = rand_Read rnd2 32"
    using that
    by (simp add: virtualMachine_def key GenerateRandomString_def
        split: sum.splits prod.splits option.splits nic_interface.splits)
  have pw: "without_AdminPassword vm1 = without_AdminPassword vm2 \<and>
      KeyData vm1 = [Some (vm_SSHKeyData vmSpec)] \<and>
      KeyData vm2 = [Some (vm_SSHKeyData vmSpec)]"
    if "virtualMachine svc rnd1 vmSpec = Inr vm1 \<and> virtualMachine svc rnd2 vmSpec = Inr vm2"
    using that
    by (auto simp: virtualMachine_def key without_AdminPassword_def KeyData_def Let_def
        split: sum.splits prod.splits option.splits nic_interface.splits)
  show ?thesis
    using key [of rnd1] rsa rd pw by blast
qed

text \<open>
  The witness: a random source whose key generation fails and one whose key
  generation succeeds give the same outcome, and both runs produce a payload.
\<close>

theorem virtualMachine_random_only_in_password_witness:
  "vm_SSHKeyData (example_VMSpec ''vm0'') = ''ssh-rsa AAAA'' \<and>
   sshKeyData example_Service (example_Random 0) (example_VMSpec ''vm0'') = Inr ''ssh-rsa AAAA'' \<and>
   virtualMachine example_Service
       (example_Random 0 \<lparr> rsa_GenerateKey := Inl (rand_error ''no entropy'') \<rparr>)
       (example_VMSpec ''vm0'') =
     virtualMachine example_Service (example_Random 0) (example_VMSpec ''vm0'') \<and>
   Inr (projr (virtualMachine example_Service (example_Random 0) (example_VMSpec ''vm0''))) =
     virtualMachine example_Service (example_Random 0) (example_VMSpec ''vm0'') \<and>
   Inr (projr (virtualMachine example_Service (example_Random 255) (example_VMSpec ''vm0''))) =
     virtualMachine example_Service (example_Random 255) (example_VMSpec ''vm0'') \<and>
   without_AdminPassword (projr (virtualMachine example_Service (example_Random 0) (example_VMSpec ''vm0''))) =
   without_AdminPassword (projr (virtualMachine example_Service (example_Random 255) (example_VMSpec ''vm0''))) \<and>
   KeyData (projr (virtualMachine example_Service (example_Random 0) (example_VMSpec ''vm0''))) =
     [Some ''ssh-rsa AAAA'']"
proof -
  have 1: "\<exists>vm. virtualMachine example_Service (example_Random 0) (example_VMSpec ''vm0'') = Inr vm"
    by (simp add: virtualMachine_defs)
  have 2: "\<exists>vm. virtualMachine example_Service (example_Random 255) (example_VMSpec ''vm0'') = Inr vm"
    by (simp add: virtualMachine_defs)
  from 1 2 obtain vm1 vm2 where
    v: "virtualMachine example_Service (example_Random 0) (example_VMSpec ''vm0'') = Inr vm1"
       "virtualMachine example_Service (example_Random 255) (example_VMSpec ''vm0'') = Inr vm2"
    by blast
  have k: "vm_SSHKeyData (example_VMSpec ''vm0'') = ''ssh-rsa AAAA''"
    by (simp add: example_VMSpec_def)
  have n: "vm_SSHKeyData (example_VMSpec ''vm0'') \<noteq> []"
    by (simp add: example_VMSpec_def)
  show ?thesis
    using virtualMachine_random_only_in_password[OF n, of example_Service "example_Random 0"
        "Inl (rand_error ''no entropy'')" "example_Random 255" vm1 vm2] v k
    by simp
qed

text \<open>
  C8 as stated fails: with a non-empty SSH key and two random sources that differ, the
  two payloads differ in the administrator password.
\<close>

theorem virtualMachine_password_counterexample:
  "vm_SSHKeyData (example_VMSpec ''vm0'') \<noteq> [] \<and>
   virtualMachine example_Service (example_Random 0) (example_VMSpec ''vm0'') \<noteq>
   virtualMachine example_Service (example_Random 255) (example_VMSpec ''vm0'')"
proof -
  have "EncodeToString (replicate 32 (0::8 word)) \<noteq> EncodeToString (replicate 32 255)"
    by code_simp
  then have "AdminPassword (projr (virtualMachine example_Service (example_Random 0) (example_VMSpec ''vm0''))) \<noteq>
    AdminPassword (projr (virtualMachine example_Service (example_Random 255) (example_VMSpec ''vm0'')))"
    by (simp only: example_password option.inject not_False_eq_True)
  then show ?thesis by (auto simp: example_VMSpec_def)
qed

text \<open>
  C9. \<open>Get\<close> returns the nil value exactly when the fetch reports that the resource
  does not exist; the error returned with it is the fetch error wrapped with the name
  of the machine. Any other fetch error is returned as it is, together with a non-nil
  value.
\<close>

theorem Get_not_found_is_absent:
  "(fst (Get svc spec) = GNil) = fetch_not_found svc spec \<and>
   (\<forall>vmSpec vm err.
      spec = ISpec vmSpec \<and>
      Client_Get svc (Scope_ResourceGroup svc) (vm_Name vmSpec) = (vm, Some err) \<longrightarrow>
      Get svc spec =
        (if ResourceNotFound svc err
         then (GNil, Some (errors_Wrap err (''vm '' @ vm_Name vmSpec @ '' not found'')))
         else (GVirtualMachine vm, Some err)))"
  by (auto simp: Get_def fetch_not_found_def split: spec_interface.splits prod.splits option.splits)

theorem Get_not_found_is_absent_witness:
  "Get example_Service (ISpec (example_VMSpec ''gone'')) =
     (GNil, Some (errors_Wrap (autorest_DetailedError 404 ''Not Found'') ''vm gone not found'')) \<and>
   Get example_Service (ISpec (example_VMSpec ''busy'')) =
     (GVirtualMachine zero_VirtualMachine, Some (autorest_DetailedError 409 ''Conflict'')) \<and>
   fetch_not_found example_Service (ISpec (example_VMSpec ''gone'')) \<and>
   \<not> fetch_not_found example_Service (ISpec (example_VMSpec ''busy''))"
  using Get_not_found_is_absent[of example_Service "ISpec (example_VMSpec ''gone'')"]
    Get_not_found_is_absent[of example_Service "ISpec (example_VMSpec ''busy'')"]
  by (simp add: example_Service_def example_VMSpec_def fetch_not_found_def)

end
